theory Spec2Isabelle
  imports Complex_Main
begin

section \<open>The Dialog helper of office-js-helpers (src/helpers/dialog.ts)\<close>

subsection \<open>JavaScript numbers\<close>

text \<open>
  A JavaScript \<^verbatim>\<open>number\<close> is a double: a finite value, \<^verbatim>\<open>NaN\<close>, or one of the
  two infinities. A finite double is kept as the real number it stands for; the two
  zeros are not told apart. The product and the quotient of two finite doubles are
  the exact result rounded to the nearest double, ties to the even significand, with
  gradual underflow and with overflow to an infinity.
  The operators follow the ECMAScript rules for the special values:
  any comparison with \<^verbatim>\<open>NaN\<close> is false, \<^verbatim>\<open>0 * Infinity\<close> and \<^verbatim>\<open>0 / 0\<close> are
  \<^verbatim>\<open>NaN\<close>, and a non-zero finite value divided by zero is an infinity of its sign.
\<close>

datatype number = NaN | Finite real | PosInfinity | NegInfinity

text \<open>The sign of a number that is not \<^verbatim>\<open>NaN\<close>, as a real in \<open>{-1, 0, 1}\<close>.\<close>

fun number_sign :: "number \<Rightarrow> real" where
  "number_sign NaN = 0"
| "number_sign (Finite a) = sgn a"
| "number_sign PosInfinity = 1"
| "number_sign NegInfinity = - 1"

text \<open>The infinity of a given sign; \<^verbatim>\<open>NaN\<close> when the sign is zero.\<close>

definition signed_infinity :: "real \<Rightarrow> number" where
  "signed_infinity s = (if s = 0 then NaN else if 0 < s then PosInfinity else NegInfinity)"

text \<open>
  The finite doubles are the numbers \<open>m * 2 powi e\<close> with a whole \<open>m\<close> of magnitude
  below \<open>2 ^ 53\<close> and \<open>- 1074 \<le> e \<le> 971\<close>. The exponent of the spacing of the doubles
  around a magnitude \<open>a\<close> is the largest \<open>e\<close> in that range with \<open>2 powi (e + 52) \<le> a\<close>,
  and \<open>- 1074\<close> in the subnormal range below \<open>2 powi (- 1022)\<close>; it is found by a search
  from the top.
\<close>

fun quantum_from :: "nat \<Rightarrow> real \<Rightarrow> int" where
  "quantum_from 0 a = - 1074"
| "quantum_from (Suc n) a =
     (if 2 powi (int n - 1021) \<le> a then int n - 1073 else quantum_from n a)"

definition quantum_exponent :: "real \<Rightarrow> int" where
  "quantum_exponent a = quantum_from 2045 a"

text \<open>The whole number nearest to \<open>m\<close>; of two equally near ones, the even one.\<close>

definition round_half_even :: "real \<Rightarrow> int" where
  "round_half_even m =
     (let f = \<lfloor>m\<rfloor>
      in if m - of_int f < 1 / 2 then f
         else if 1 / 2 < m - of_int f then f + 1
         else if even f then f else f + 1)"

text \<open>
  The multiple of the spacing nearest to \<open>x\<close>, and the double that an operation with
  the exact result \<open>x\<close> returns: an infinity when that multiple reaches \<open>2 powi 1024\<close>.
\<close>

definition round_nearest :: "real \<Rightarrow> real" where
  "round_nearest x =
     (let e = quantum_exponent \<bar>x\<bar>
      in sgn x * (of_int (round_half_even (\<bar>x\<bar> / 2 powi e)) * 2 powi e))"

definition round_double :: "real \<Rightarrow> number" where
  "round_double x =
     (if 2 powi 1024 \<le> \<bar>round_nearest x\<bar> then signed_infinity (sgn x)
      else Finite (round_nearest x))"

text \<open>The operator \<^verbatim>\<open><\<close> on numbers.\<close>

fun number_less :: "number \<Rightarrow> number \<Rightarrow> bool" where
  "number_less NaN _ = False"
| "number_less _ NaN = False"
| "number_less (Finite a) (Finite b) = (a < b)"
| "number_less (Finite a) PosInfinity = True"
| "number_less (Finite a) NegInfinity = False"
| "number_less PosInfinity _ = False"
| "number_less NegInfinity NegInfinity = False"
| "number_less NegInfinity _ = True"

text \<open>The operator \<^verbatim>\<open>*\<close> on numbers.\<close>

fun number_times :: "number \<Rightarrow> number \<Rightarrow> number" where
  "number_times NaN _ = NaN"
| "number_times _ NaN = NaN"
| "number_times (Finite a) (Finite b) = round_double (a * b)"
| "number_times x y = signed_infinity (number_sign x * number_sign y)"

text \<open>The operator \<^verbatim>\<open>/\<close> on numbers (a zero divisor is read as \<^verbatim>\<open>+0\<close>).\<close>

fun number_divide :: "number \<Rightarrow> number \<Rightarrow> number" where
  "number_divide NaN _ = NaN"
| "number_divide _ NaN = NaN"
| "number_divide (Finite a) (Finite b) =
     (if b = 0 then signed_infinity (sgn a) else round_double (a / b))"
| "number_divide (Finite a) _ = Finite 0"
| "number_divide x (Finite b) =
     signed_infinity (number_sign x * (if 0 \<le> b then 1 else - 1))"
| "number_divide _ _ = NaN"

text \<open>
  Truthiness of an optional number, as the operator \<^verbatim>\<open>&&\<close> tests it:
  \<^verbatim>\<open>undefined\<close> (\<open>None\<close>), \<^verbatim>\<open>NaN\<close> and zero are falsy, every other number is truthy.
\<close>

fun truthy :: "number option \<Rightarrow> bool" where
  "truthy None = False"
| "truthy (Some NaN) = False"
| "truthy (Some (Finite a)) = (a \<noteq> 0)"
| "truthy (Some _) = True"

subsection \<open>The environment\<close>

text \<open>
  What the class reads from its surroundings: the capability check
  \<^verbatim>\<open>Utilities.isAddin\<close>, \<^verbatim>\<open>location.origin\<close>, and the two dimensions of
  \<^verbatim>\<open>window.screen\<close>, which the browser reports as whole numbers of pixels.
\<close>

record environment =
  isAddin :: bool
  location_origin :: string
  screen_width :: real
  screen_height :: real

subsection \<open>The size computation\<close>

text \<open>
  \<^verbatim>\<open>IDialogSize\<close>. The fields \<^verbatim>\<open>width$\<close> and \<^verbatim>\<open>height$\<close> are written
  \<open>width_pct\<close> and \<open>height_pct\<close>.
\<close>

record IDialogSize =
  width_pct :: number
  height_pct :: number
  width :: number
  height :: number

text \<open>
  \<^verbatim>\<open>_maxSize(value, max)\<close>: \<^verbatim>\<open>value < (max - 30) ? value : max - 30\<close>.
  The value is an optional parameter of the constructor and may be \<^verbatim>\<open>undefined\<close>
  (\<open>None\<close>), which the comparison converts to \<^verbatim>\<open>NaN\<close>. The only callers pass a
  screen dimension for \<^verbatim>\<open>max\<close>; the difference of a whole number below \<open>2 ^ 53\<close>
  and 30 is a double, so the subtraction does not round.
\<close>

definition maxSize :: "number option \<Rightarrow> real \<Rightarrow> number" where
  "maxSize value max' =
     (case value of
        None \<Rightarrow> (if number_less NaN (Finite (max' - 30)) then NaN else Finite (max' - 30))
      | Some v \<Rightarrow> (if number_less v (Finite (max' - 30)) then v else Finite (max' - 30)))"

text \<open>\<^verbatim>\<open>_percentage(value, max)\<close>: \<^verbatim>\<open>value * 100 / max\<close>.\<close>

definition percentage :: "number \<Rightarrow> real \<Rightarrow> number" where
  "percentage value max' = number_divide (number_times value (Finite 100)) (Finite max')"

text \<open>\<^verbatim>\<open>_optimizeSize(width, height)\<close>.\<close>

definition optimizeSize :: "environment \<Rightarrow> number option \<Rightarrow> number option \<Rightarrow> IDialogSize" where
  "optimizeSize env w h =
     (let screenWidth = screen_width env;
          screenHeight = screen_height env;
          optimizedWidth = maxSize w screenWidth;
          optimizedHeight = maxSize h screenHeight
      in \<lparr> width_pct = percentage optimizedWidth screenWidth,
           height_pct = percentage optimizedHeight screenHeight,
           width = optimizedWidth,
           height = optimizedHeight \<rparr>)"

text \<open>
  \<^verbatim>\<open>_getSize(width, height)\<close>. The function falls off its end when the screen is
  wider than 1920 and no size was given; it then returns \<^verbatim>\<open>undefined\<close> (\<open>None\<close>).
\<close>

definition getSize :: "environment \<Rightarrow> number option \<Rightarrow> number option \<Rightarrow> IDialogSize option" where
  "getSize env w h =
     (let screenWidth = screen_width env
      in if truthy w \<and> truthy h then Some (optimizeSize env w h)
         else if screenWidth \<le> 640 then
           Some (optimizeSize env (Some (Finite 640)) (Some (Finite 480)))
         else if screenWidth \<le> 1366 then
           Some (optimizeSize env (Some (Finite 1024)) (Some (Finite 768)))
         else if screenWidth \<le> 1920 then
           Some (optimizeSize env (Some (Finite 1600)) (Some (Finite 900)))
         else None)"

subsection \<open>JavaScript values and \<^verbatim>\<open>JSON.stringify\<close>\<close>

text \<open>
  The values a caller can hand to \<^verbatim>\<open>Dialog.close\<close> and the values the host hands to
  the event handlers: \<^verbatim>\<open>undefined\<close>, \<^verbatim>\<open>null\<close>, booleans, integral numbers,
  strings, arrays, plain objects (their own enumerable properties in enumeration
  order) and functions. A string is its sequence of UTF-8 bytes. \<open>Number\<close> stands
  for the whole numbers of magnitude below \<open>10 ^ 21\<close>, which JavaScript prints in plain
  decimal notation; larger numbers, fractions, cyclic objects and objects with a
  \<^verbatim>\<open>toJSON\<close> method are not represented.
\<close>

datatype js_value =
    Undefined
  | Null
  | Boolean bool
  | Number int
  | String string
  | Array "js_value list"
  | Object "(string \<times> js_value) list"
  | Function

text \<open>The operator \<^verbatim>\<open>typeof\<close>.\<close>

fun typeof :: "js_value \<Rightarrow> string" where
  "typeof Undefined = ''undefined''"
| "typeof Null = ''object''"
| "typeof (Boolean _) = ''boolean''"
| "typeof (Number _) = ''number''"
| "typeof (String _) = ''string''"
| "typeof (Array _) = ''object''"
| "typeof (Object _) = ''object''"
| "typeof Function = ''function''"

text \<open>
  \<^verbatim>\<open>JSON.stringify\<close> quotes a string: the double quote and the backslash are escaped
  with a backslash, the control characters below \<open>0x20\<close> are written with their short
  escape or as \<^verbatim>\<open>\u00XX\<close> in lower-case hexadecimal, everything else is copied.
\<close>

definition hex_digit :: "nat \<Rightarrow> char" where
  "hex_digit n = (''0123456789abcdef'' ! n)"

definition quote_char :: "char \<Rightarrow> string" where
  "quote_char c =
     (if c = CHR 0x22 then [CHR 0x5C, CHR 0x22]
      else if c = CHR 0x5C then [CHR 0x5C, CHR 0x5C]
      else if c = CHR 0x08 then [CHR 0x5C, CHR ''b'']
      else if c = CHR 0x0C then [CHR 0x5C, CHR ''f'']
      else if c = CHR 0x0A then [CHR 0x5C, CHR ''n'']
      else if c = CHR 0x0D then [CHR 0x5C, CHR ''r'']
      else if c = CHR 0x09 then [CHR 0x5C, CHR ''t'']
      else if (of_char c :: nat) < 32 then
        [CHR 0x5C, CHR ''u'', CHR ''0'', CHR ''0'',
         hex_digit (of_char c div 16), hex_digit (of_char c mod 16)]
      else [c])"

definition quote :: "string \<Rightarrow> string" where
  "quote s = [CHR 0x22] @ concat (map quote_char s) @ [CHR 0x22]"

text \<open>The decimal digits of a natural number, and of an integer.\<close>

fun decimal :: "nat \<Rightarrow> string" where
  "decimal n =
     (if n < 10 then [''0123456789'' ! n]
      else decimal (n div 10) @ [''0123456789'' ! (n mod 10)])"

definition number_to_string :: "int \<Rightarrow> string" where
  "number_to_string i = (if i < 0 then CHR ''-'' # decimal (nat (- i)) else decimal (nat i))"

fun join :: "string \<Rightarrow> string list \<Rightarrow> string" where
  "join sep [] = []"
| "join sep [x] = x"
| "join sep (x # y # ys) = x @ sep @ join sep (y # ys)"

text \<open>
  The serialization of a value, \<open>None\<close> where \<^verbatim>\<open>JSON.stringify\<close> yields
  \<^verbatim>\<open>undefined\<close>: for \<^verbatim>\<open>undefined\<close> itself and for a function. Inside an array such
  an element is written \<^verbatim>\<open>null\<close>; inside an object the property is left out.
\<close>

fun serialize :: "js_value \<Rightarrow> string option"
  and serialize_elements :: "js_value list \<Rightarrow> string list"
  and serialize_properties :: "(string \<times> js_value) list \<Rightarrow> string list" where
  "serialize Undefined = None"
| "serialize Function = None"
| "serialize Null = Some ''null''"
| "serialize (Boolean b) = Some (if b then ''true'' else ''false'')"
| "serialize (Number i) = Some (number_to_string i)"
| "serialize (String s) = Some (quote s)"
| "serialize (Array xs) = Some (''['' @ join '','' (serialize_elements xs) @ '']'')"
| "serialize (Object ps) = Some (''{'' @ join '','' (serialize_properties ps) @ ''}'')"
| "serialize_elements [] = []"
| "serialize_elements (x # xs) =
     (case serialize x of None \<Rightarrow> ''null'' | Some t \<Rightarrow> t) # serialize_elements xs"
| "serialize_properties [] = []"
| "serialize_properties ((k, v) # ps) =
     (case serialize v of
        None \<Rightarrow> serialize_properties ps
      | Some t \<Rightarrow> (quote k @ '':'' @ t) # serialize_properties ps)"

text \<open>\<^verbatim>\<open>JSON.stringify(v)\<close>, whose result is a string or \<^verbatim>\<open>undefined\<close>.\<close>

definition JSON_stringify :: "js_value \<Rightarrow> js_value" where
  "JSON_stringify v = (case serialize v of None \<Rightarrow> Undefined | Some t \<Rightarrow> String t)"

subsection \<open>Errors\<close>

text \<open>
  What can be thrown or wrapped as an inner error: a \<^verbatim>\<open>TypeError\<close> object raised by
  the runtime when a property of \<^verbatim>\<open>undefined\<close> or \<^verbatim>\<open>null\<close> is read, or any value.
  \<^verbatim>\<open>new DialogError(message, innerError)\<close> is kept as a constructor of its two
  arguments; an argument left out is \<^verbatim>\<open>undefined\<close>.
\<close>

datatype error_value = TypeError | Value js_value

datatype dialog_error = DialogError js_value error_value

text \<open>
  Reading the property \<open>k\<close> of a value. It is used for the keys \<^verbatim>\<open>message\<close> and
  \<^verbatim>\<open>error\<close> only, which no primitive, array or function defines by itself.
\<close>

fun get_property :: "js_value \<Rightarrow> string \<Rightarrow> error_value + js_value" where
  "get_property Undefined k = Inl TypeError"
| "get_property Null k = Inl TypeError"
| "get_property (Object ps) k = Inr (case map_of ps k of None \<Rightarrow> Undefined | Some v \<Rightarrow> v)"
| "get_property _ k = Inr Undefined"

subsection \<open>Construction\<close>

text \<open>
  The fields of a \<^verbatim>\<open>Dialog\<close> object: \<^verbatim>\<open>url\<close>, \<^verbatim>\<open>width\<close>, \<^verbatim>\<open>height\<close>,
  \<^verbatim>\<open>size\<close> and \<^verbatim>\<open>_result\<close>. A promise is referred to by its address in the
  store of promises, so that two reads of \<^verbatim>\<open>result\<close> can be compared for identity.
\<close>

type_synonym promise_ref = nat

record Dialog =
  this_url :: string
  this_width :: "number option"
  this_height :: "number option"
  this_size :: IDialogSize
  this_result :: "promise_ref option"

text \<open>\<^verbatim>\<open>/^https/.test(url)\<close>.\<close>

definition test_https :: "string \<Rightarrow> bool" where
  "test_https url = (take 5 url = ''https'')"

text \<open>
  The constructor. A url left out (\<open>None\<close>) takes the default \<^verbatim>\<open>location.origin\<close>.
  The size is computed by \<^verbatim>\<open>this._optimizeSize(width, height)\<close> on the arguments as
  they were given.
\<close>

definition Dialog_constructor ::
  "environment \<Rightarrow> string option \<Rightarrow> number option \<Rightarrow> number option \<Rightarrow> dialog_error + Dialog" where
  "Dialog_constructor env url_arg w h =
     (let url = (case url_arg of None \<Rightarrow> location_origin env | Some u \<Rightarrow> u)
      in if \<not> isAddin env then
           Inl (DialogError (String ''This API cannot be used outside of Office.js'')
                  (Value Undefined))
         else if \<not> test_https url then
           Inl (DialogError (String ''URL has to be loaded over HTTPS.'') (Value Undefined))
         else
           Inr \<lparr> this_url = url, this_width = w, this_height = h,
                 this_size = optimizeSize env w h, this_result = None \<rparr>)"

subsection \<open>The static \<^verbatim>\<open>close\<close>\<close>

text \<open>
  \<^verbatim>\<open>Dialog.close(message)\<close> runs inside the opened dialog. The host primitive
  \<^verbatim>\<open>Office.context.ui.messageParent\<close> is given by what it throws on an argument, if
  anything; the list \<open>sent\<close> records every argument it has been called with.
  The result is the \<^verbatim>\<open>DialogError\<close> thrown, if any, and the new record of calls.
\<close>

definition Dialog_close ::
  "environment \<Rightarrow> (js_value \<Rightarrow> error_value option) \<Rightarrow> js_value \<Rightarrow> js_value list
     \<Rightarrow> dialog_error option \<times> js_value list" where
  "Dialog_close env messageParent message sent =
     (if \<not> isAddin env then
        (Some (DialogError (String ''This API cannot be used outside of Office.js'')
                 (Value Undefined)), sent)
      else
        case (if message = Undefined \<or> message = Null then Inr Null
              else if typeof message = ''string'' then Inr (String ''string'')
              else if typeof message = ''function'' then
                Inl (DialogError
                       (String ''Invalid message. Canno't pass functions as arguments'')
                       (Value Undefined))
              else Inr (String ''object'')) of
          Inl e \<Rightarrow> (Some e, sent)
        | Inr ty \<Rightarrow>
            (let payload = JSON_stringify (Object [(''type'', ty), (''value'', message)])
             in case messageParent payload of
                  None \<Rightarrow> (None, sent @ [payload])
                | Some error \<Rightarrow>
                    (Some (DialogError (String ''Canno't close dialog'') error),
                     sent @ [payload])))"

subsection \<open>Promises and the host\<close>

text \<open>
  The state of a promise. A promise resolved with a thenable (an object whose
  \<^verbatim>\<open>then\<close> property is a function) is locked to it and stays unsettled until
  the thenable calls back; this state is \<open>Following\<close>. The functions
  \<^verbatim>\<open>resolve\<close> and \<^verbatim>\<open>reject\<close> of a promise act on a pending promise only.
\<close>

datatype promise_state =
  Pending | Following js_value | Fulfilled js_value | Rejected dialog_error

type_synonym dialog_ref = nat

datatype event_type = DialogMessageReceived | DialogEventReceived

text \<open>
  The two handlers that \<^verbatim>\<open>_open\<close> registers are closures over the functions
  \<^verbatim>\<open>resolve\<close> and \<^verbatim>\<open>reject\<close> of the promise and over the dialog handle.
\<close>

datatype handler = MessageHandler promise_ref dialog_ref | EventHandler promise_ref dialog_ref

text \<open>
  A call of \<^verbatim>\<open>Office.context.ui.displayDialogAsync(url, {width, height}, callback)\<close>;
  the callback is a closure over the promise it settles.
\<close>

record display_request =
  startAddress :: string
  options_width :: number
  options_height :: number
  callback :: promise_ref

text \<open>
  The store of promises, the calls of \<^verbatim>\<open>displayDialogAsync\<close> the host has received,
  the handlers registered with \<^verbatim>\<open>addEventHandler\<close> on each dialog handle, and the
  calls of \<^verbatim>\<open>close\<close> on dialog handles, each in the order they happened.
\<close>

record world =
  promises :: "promise_state list"
  display_requests :: "display_request list"
  handlers :: "(dialog_ref \<times> event_type \<times> handler) list"
  close_calls :: "dialog_ref list"

definition thenable :: "js_value \<Rightarrow> bool" where
  "thenable v =
     (case v of
        Object ps \<Rightarrow> (case map_of ps ''then'' of Some Function \<Rightarrow> True | _ \<Rightarrow> False)
      | _ \<Rightarrow> False)"

definition resolve :: "promise_ref \<Rightarrow> js_value \<Rightarrow> world \<Rightarrow> world" where
  "resolve p v w =
     (if p < length (promises w) \<and> promises w ! p = Pending then
        w\<lparr>promises := (promises w)[p := (if thenable v then Following v else Fulfilled v)]\<rparr>
      else w)"

definition reject :: "promise_ref \<Rightarrow> dialog_error \<Rightarrow> world \<Rightarrow> world" where
  "reject p e w =
     (if p < length (promises w) \<and> promises w ! p = Pending then
        w\<lparr>promises := (promises w)[p := Rejected e]\<rparr>
      else w)"

text \<open>\<^verbatim>\<open>dialog.close()\<close> on a dialog handle.\<close>

definition close_dialog :: "dialog_ref \<Rightarrow> world \<Rightarrow> world" where
  "close_dialog dlg w = w\<lparr>close_calls := close_calls w @ [dlg]\<rparr>"

subsection \<open>Opening the dialog and the result accessor\<close>

text \<open>
  \<^verbatim>\<open>_open()\<close>: a new pending promise is allocated and its executor, which runs at
  once, calls \<^verbatim>\<open>displayDialogAsync\<close> with the url and the two percentages of the
  size. The host keeps the callback and calls it later.
\<close>

definition Dialog_open :: "Dialog \<Rightarrow> world \<Rightarrow> promise_ref \<times> world" where
  "Dialog_open d w =
     (let p = length (promises w);
          w1 = w\<lparr>promises := promises w @ [Pending]\<rparr>;
          w2 = w1\<lparr>display_requests := display_requests w1 @
                   [\<lparr> startAddress = this_url d,
                      options_width = width_pct (this_size d),
                      options_height = height_pct (this_size d),
                      callback = p \<rparr>]\<rparr>
      in (p, w2))"

text \<open>
  The getter \<^verbatim>\<open>result\<close>: \<^verbatim>\<open>if (this._result == null) this._result = this._open()\<close>,
  then \<^verbatim>\<open>return this._result\<close>. It yields the promise, the dialog object and the world.
\<close>

definition Dialog_result :: "Dialog \<Rightarrow> world \<Rightarrow> promise_ref \<times> Dialog \<times> world" where
  "Dialog_result d w =
     (case this_result d of
        None \<Rightarrow> (let (p, w') = Dialog_open d w in (p, d\<lparr>this_result := Some p\<rparr>, w'))
      | Some p \<Rightarrow> (p, d, w))"

text \<open>
  The \<^verbatim>\<open>Office.AsyncResult\<close> the host passes to the callback: a failure with the
  message of its error, or a success with the dialog handle.
\<close>

datatype async_result = Failed string | Succeeded dialog_ref

text \<open>
  The callback given to \<^verbatim>\<open>displayDialogAsync\<close>, for the promise \<open>p\<close>. The host
  calls it after \<^verbatim>\<open>_open\<close> has returned, so what it throws does not pass through
  the executor of the promise. The result is the error thrown, if any, and the world.
\<close>

definition displayDialogAsync_callback ::
  "promise_ref \<Rightarrow> async_result \<Rightarrow> world \<Rightarrow> dialog_error option \<times> world" where
  "displayDialogAsync_callback p result w =
     (case result of
        Failed message \<Rightarrow> (Some (DialogError (String message) (Value Undefined)), w)
      | Succeeded dialog \<Rightarrow>
          (None,
           w\<lparr>handlers := handlers w @
                [(dialog, DialogMessageReceived, MessageHandler p dialog),
                 (dialog, DialogEventReceived, EventHandler p dialog)]\<rparr>))"

text \<open>
  The handler of \<^verbatim>\<open>DialogMessageReceived\<close>:
  \<^verbatim>\<open>try { resolve(args.message) } catch (exception) { reject(new DialogError(..., exception)) }
  finally { dialog.close() }\<close>.
\<close>

definition message_handler :: "promise_ref \<Rightarrow> dialog_ref \<Rightarrow> js_value \<Rightarrow> world \<Rightarrow> world" where
  "message_handler p dialog args w =
     close_dialog dialog
       (case get_property args ''message'' of
          Inr m \<Rightarrow> resolve p m w
        | Inl exception \<Rightarrow>
            reject p
              (DialogError (String ''An unexpected error in the dialog has occured.'')
                 exception) w)"

text \<open>
  The handler of \<^verbatim>\<open>DialogEventReceived\<close>:
  \<^verbatim>\<open>try { reject(new DialogError(args.message, args.error)) } catch (exception) { ... }
  finally { dialog.close() }\<close>.
\<close>

definition event_handler :: "promise_ref \<Rightarrow> dialog_ref \<Rightarrow> js_value \<Rightarrow> world \<Rightarrow> world" where
  "event_handler p dialog args w =
     close_dialog dialog
       (case get_property args ''message'' of
          Inl exception \<Rightarrow>
            reject p
              (DialogError (String ''An unexpected error in the dialog has occured.'')
                 exception) w
        | Inr m \<Rightarrow>
            (case get_property args ''error'' of
               Inl exception \<Rightarrow>
                 reject p
                   (DialogError (String ''An unexpected error in the dialog has occured.'')
                      exception) w
             | Inr e \<Rightarrow> reject p (DialogError m (Value e)) w))"

fun run_handler :: "handler \<Rightarrow> js_value \<Rightarrow> world \<Rightarrow> world" where
  "run_handler (MessageHandler p dialog) args w = message_handler p dialog args w"
| "run_handler (EventHandler p dialog) args w = event_handler p dialog args w"

text \<open>
  The host delivers an event of a type on a dialog handle: every handler registered
  for that handle and type runs, in the order of registration.
\<close>

definition registered :: "dialog_ref \<Rightarrow> event_type \<Rightarrow> world \<Rightarrow> handler list" where
  "registered dialog ty w =
     map (\<lambda>(d, t, h). h) (filter (\<lambda>(d, t, h). d = dialog \<and> t = ty) (handlers w))"

definition deliver :: "dialog_ref \<Rightarrow> event_type \<Rightarrow> js_value \<Rightarrow> world \<Rightarrow> world" where
  "deliver dialog ty args w = fold (\<lambda>h. run_handler h args) (registered dialog ty w) w"

subsection \<open>A session\<close>

text \<open>
  What can happen to one \<^verbatim>\<open>Dialog\<close> object after its construction: the caller reads
  \<^verbatim>\<open>result\<close>, the host completes one of the display requests it has received, or the
  host delivers an event on a dialog handle. A session keeps the object, the world,
  the promises returned by the reads and the errors thrown inside callbacks.
\<close>

datatype action =
    ReadResult
  | Complete nat async_result
  | Deliver dialog_ref event_type js_value

record session =
  dialog :: Dialog
  world_of :: world
  reads :: "promise_ref list"
  thrown :: "dialog_error list"

fun step :: "action \<Rightarrow> session \<Rightarrow> session" where
  "step ReadResult s =
     (let (p, d', w') = Dialog_result (dialog s) (world_of s)
      in s\<lparr>dialog := d', world_of := w', reads := reads s @ [p]\<rparr>)"
| "step (Complete i result) s =
     (if i < length (display_requests (world_of s)) then
        (let (e, w') = displayDialogAsync_callback
                         (callback (display_requests (world_of s) ! i)) result (world_of s)
         in s\<lparr>world_of := w',
               thrown := thrown s @ (case e of None \<Rightarrow> [] | Some x \<Rightarrow> [x])\<rparr>)
      else s)"
| "step (Deliver dlg ty args) s = s\<lparr>world_of := deliver dlg ty args (world_of s)\<rparr>"

fun run :: "action list \<Rightarrow> session \<Rightarrow> session" where
  "run [] s = s"
| "run (a # as) s = run as (step a s)"

subsection \<open>Example surroundings\<close>

text \<open>
  Concrete surroundings on which the theorems below are evaluated: an add-in served
  from \<^verbatim>\<open>https://localhost\<close> on a screen of 1366 by 768 pixels, a host whose
  \<^verbatim>\<open>messageParent\<close> accepts every payload, the world before any dialog was opened,
  and the object that \<^verbatim>\<open>new Dialog()\<close> yields in these surroundings.
\<close>

definition laptop :: environment where
  "laptop = \<lparr> isAddin = True, location_origin = ''https://localhost'',
               screen_width = 1366, screen_height = 768 \<rparr>"

definition never_throws :: "js_value \<Rightarrow> error_value option" where
  "never_throws payload = None"

definition fresh_world :: world where
  "fresh_world = \<lparr> promises = [], display_requests = [], handlers = [], close_calls = [] \<rparr>"

definition laptop_dialog :: Dialog where
  "laptop_dialog =
     \<lparr> this_url = ''https://localhost'', this_width = None, this_height = None,
       this_size = optimizeSize laptop None None, this_result = None \<rparr>"

section \<open>Rounding to the nearest double\<close>

subsection \<open>The spacing of the doubles\<close>

lemma quantum_from_range: "- 1074 \<le> quantum_from n a \<and> quantum_from n a \<le> int n - 1074"
  by (induction n) auto

lemma quantum_from_lower:
  "quantum_from n a \<noteq> - 1074 \<Longrightarrow> 2 powi (quantum_from n a + 52) \<le> a"
  by (induction n) (auto split: if_splits)

lemma quantum_from_upper:
  "quantum_from n a < int n - 1074 \<Longrightarrow> a < 2 powi (quantum_from n a + 53)"
proof (induction n)
  case 0
  then show ?case by simp
next
  case (Suc n)
  show ?case
  proof (cases "2 powi (int n - 1021) \<le> a")
    case True
    with Suc.prems show ?thesis by simp
  next
    case False
    then have q: "quantum_from (Suc n) a = quantum_from n a" by simp
    show ?thesis
    proof (cases "quantum_from n a < int n - 1074")
      case True
      with Suc.IH q show ?thesis by simp
    next
      case False
      with quantum_from_range [of n a] have "quantum_from n a = int n - 1074" by linarith
      with \<open>\<not> 2 powi (int n - 1021) \<le> a\<close> q show ?thesis by simp
    qed
  qed
qed

lemma quantum_exponent_range: "- 1074 \<le> quantum_exponent a" "quantum_exponent a \<le> 971"
  using quantum_from_range [of 2045 a] by (simp_all add: quantum_exponent_def)

lemma quantum_exponent_lower:
  "quantum_exponent a \<noteq> - 1074 \<Longrightarrow> 2 powi (quantum_exponent a + 52) \<le> a"
  using quantum_from_lower [of 2045 a] by (simp add: quantum_exponent_def)

lemma quantum_exponent_upper:
  "quantum_exponent a < 971 \<Longrightarrow> a < 2 powi (quantum_exponent a + 53)"
  using quantum_from_upper [of 2045 a] by (simp add: quantum_exponent_def)

lemma quantum_exponent_eqI:
  assumes "- 1074 \<le> e" and "e \<le> 971"
    and "e = - 1074 \<or> 2 powi (e + 52) \<le> a"
    and "e = 971 \<or> a < 2 powi (e + 53)"
  shows "quantum_exponent a = e"
proof (rule ccontr)
  assume ne: "quantum_exponent a \<noteq> e"
  let ?q = "quantum_exponent a"
  show False
  proof (cases "?q < e")
    case True
    then have "?q < 971" using assms(2) by simp
    then have "a < 2 powi (?q + 53)" by (rule quantum_exponent_upper)
    also have "\<dots> \<le> (2::real) powi (e + 52)"
      using True by (intro power_int_increasing) auto
    finally have "a < 2 powi (e + 52)" .
    moreover have "e \<noteq> - 1074" using True quantum_exponent_range(1) [of a] by linarith
    ultimately show False using assms(3) by simp
  next
    case False
    with ne have gt: "e < ?q" by simp
    then have "?q \<noteq> - 1074" using assms(1) by linarith
    then have "2 powi (?q + 52) \<le> a" by (rule quantum_exponent_lower)
    moreover have "(2::real) powi (e + 53) \<le> 2 powi (?q + 52)"
      using gt by (intro power_int_increasing) auto
    moreover have "e \<noteq> 971" using gt quantum_exponent_range(2) [of a] by linarith
    ultimately show False using assms(4) by simp
  qed
qed

lemma round_half_even_le:
  assumes "m \<le> of_int n"
  shows "round_half_even m \<le> n"
proof -
  have f: "\<lfloor>m\<rfloor> \<le> n" using assms by (simp add: floor_le_iff)
  show ?thesis
  proof (cases "m - of_int \<lfloor>m\<rfloor> < 1 / 2")
    case True
    then show ?thesis using f by (simp add: round_half_even_def Let_def)
  next
    case False
    then have "of_int \<lfloor>m\<rfloor> < m" by linarith
    then have "of_int \<lfloor>m\<rfloor> < (of_int n :: real)" using assms by linarith
    then have "\<lfloor>m\<rfloor> < n" by simp
    then show ?thesis by (simp add: round_half_even_def Let_def)
  qed
qed

lemma round_half_even_ge:
  assumes "of_int n \<le> m"
  shows "n \<le> round_half_even m"
proof -
  have "n \<le> \<lfloor>m\<rfloor>" using assms by (simp add: le_floor_iff)
  then show ?thesis by (simp add: round_half_even_def Let_def)
qed

lemma round_half_even_error: "\<bar>of_int (round_half_even m) - m\<bar> \<le> 1 / 2"
proof -
  have "of_int \<lfloor>m\<rfloor> \<le> m" "m < of_int \<lfloor>m\<rfloor> + 1" by linarith+
  then show ?thesis by (auto simp: round_half_even_def Let_def)
qed

lemma round_half_even_of_int [simp]: "round_half_even (of_int n) = n"
  by (simp add: round_half_even_def)


lemma round_nearest_nonneg_eq:
  assumes "0 \<le> x"
  shows "round_nearest x =
     of_int (round_half_even (x / 2 powi quantum_exponent x)) * 2 powi quantum_exponent x"
proof (cases "x = 0")
  case True
  then show ?thesis
    using round_half_even_of_int [of 0] by (simp add: round_nearest_def del: round_half_even_of_int)
next
  case False
  with assms have "0 < x" by simp
  then show ?thesis by (simp add: round_nearest_def Let_def)
qed

lemma round_nearest_nonneg:
  assumes "0 \<le> x"
  shows "0 \<le> round_nearest x"
proof -
  have "(of_int 0 :: real) \<le> x / 2 powi quantum_exponent x" using assms by simp
  then have "0 \<le> round_half_even (x / 2 powi quantum_exponent x)"
    by (rule round_half_even_ge)
  then show ?thesis by (simp add: round_nearest_nonneg_eq [OF assms])
qed

lemma quantum_exponent_below_2_53:
  assumes "a < 2 ^ 53"
  shows "quantum_exponent a \<le> 0"
proof (rule ccontr)
  assume "\<not> quantum_exponent a \<le> 0"
  then have pos: "0 < quantum_exponent a" by simp
  then have "2 powi (quantum_exponent a + 52) \<le> a"
    by (intro quantum_exponent_lower) simp
  moreover have "(2::real) powi 53 \<le> 2 powi (quantum_exponent a + 52)"
    using pos by (intro power_int_increasing) auto
  ultimately show False using assms by simp
qed

text \<open>A whole number bounds the rounded value from above and from below.\<close>

lemma round_nearest_le_int:
  assumes "0 \<le> x" and "x \<le> of_int k" and "x < 2 ^ 53"
  shows "round_nearest x \<le> of_int k"
proof -
  let ?e = "quantum_exponent x"
  have e: "?e \<le> 0" using assms(3) by (rule quantum_exponent_below_2_53)
  have p: "(2::real) powi ?e * 2 ^ nat (- ?e) = 1"
    using e by (simp add: power_int_def field_simps)
  have "(of_int k :: real) / 2 powi ?e = of_int k * 2 ^ nat (- ?e)"
    using p by (simp add: field_simps)
  also have "\<dots> = of_int (k * 2 ^ nat (- ?e))" by simp
  finally have i: "(of_int k :: real) / 2 powi ?e = of_int (k * 2 ^ nat (- ?e))" .
  have "x / 2 powi ?e \<le> of_int k / 2 powi ?e"
    using assms(2) by (simp add: divide_right_mono)
  then have "round_half_even (x / 2 powi ?e) \<le> k * 2 ^ nat (- ?e)"
    unfolding i by (rule round_half_even_le)
  then have "(of_int (round_half_even (x / 2 powi ?e)) :: real) \<le> of_int (k * 2 ^ nat (- ?e))"
    by (simp only: of_int_le_iff)
  then have "of_int (round_half_even (x / 2 powi ?e)) * 2 powi ?e
               \<le> (of_int (k * 2 ^ nat (- ?e)) :: real) * 2 powi ?e"
    by (intro mult_right_mono) simp_all
  also have "\<dots> = of_int k * (2 powi ?e * 2 ^ nat (- ?e))" by (simp add: mult_ac)
  also have "\<dots> = of_int k" by (simp only: p mult_1_right)
  finally show ?thesis by (simp add: round_nearest_nonneg_eq [OF assms(1)])
qed

text \<open>A power of two in the range of the doubles bounds the rounded value from below.\<close>

lemma round_nearest_ge_pow:
  assumes "- 1074 \<le> j" and "2 powi j \<le> x"
  shows "2 powi j \<le> round_nearest x"
proof -
  let ?e = "quantum_exponent x"
  have x: "0 \<le> x" using assms(2) zero_less_power_int [of "2::real" j] by linarith
  show ?thesis
  proof (cases "?e \<le> j")
    case True
    have p: "(2::real) powi j = 2 ^ nat (j - ?e) * 2 powi ?e"
      using True power_int_add [of "2::real" "j - ?e" ?e] by (simp add: power_int_def)
    then have "(of_int (2 ^ nat (j - ?e)) :: real) \<le> x / 2 powi ?e"
      using assms(2) by (simp add: le_divide_eq)
    then have "2 ^ nat (j - ?e) \<le> round_half_even (x / 2 powi ?e)"
      by (rule round_half_even_ge)
    then have "(of_int (2 ^ nat (j - ?e)) :: real) \<le> of_int (round_half_even (x / 2 powi ?e))"
      by (simp only: of_int_le_iff)
    then have "(of_int (2 ^ nat (j - ?e)) :: real) * 2 powi ?e
                 \<le> of_int (round_half_even (x / 2 powi ?e)) * 2 powi ?e"
      by (intro mult_right_mono) simp_all
    then show ?thesis using p by (simp add: round_nearest_nonneg_eq [OF x])
  next
    case False
    then have j: "j < ?e" by simp
    then have "?e \<noteq> - 1074" using assms(1) by linarith
    then have "2 powi (?e + 52) \<le> x" by (rule quantum_exponent_lower)
    moreover have "(2::real) powi (?e + 52) = 2 ^ 52 * 2 powi ?e"
      using power_int_add [of "2::real" 52 ?e] by (simp add: add.commute)
    ultimately have "(of_int 1 :: real) \<le> x / 2 powi ?e"
      by (simp add: le_divide_eq) (smt (verit) zero_less_power_int mult_right_mono)
    then have "1 \<le> round_half_even (x / 2 powi ?e)"
      by (rule round_half_even_ge)
    then have "(1 :: real) \<le> of_int (round_half_even (x / 2 powi ?e))"
      by simp
    then have "1 * 2 powi ?e \<le> of_int (round_half_even (x / 2 powi ?e)) * (2::real) powi ?e"
      by (intro mult_right_mono) simp_all
    then have "2 powi ?e \<le> round_nearest x"
      by (simp only: round_nearest_nonneg_eq [OF x] mult_1)
    moreover have "(2::real) powi j \<le> 2 powi ?e"
      using j by (intro power_int_increasing) auto
    ultimately show ?thesis by linarith
  qed
qed

text \<open>The rounded value is within half a quantum of the exact one.\<close>

lemma round_nearest_error:
  assumes "0 \<le> x"
  shows "\<bar>round_nearest x - x\<bar> \<le> 2 powi quantum_exponent x / 2"
proof -
  let ?e = "quantum_exponent x"
  let ?m = "x / 2 powi ?e"
  have "round_nearest x - x = (of_int (round_half_even ?m) - ?m) * 2 powi ?e"
    by (simp add: round_nearest_nonneg_eq [OF assms] algebra_simps)
  then have "\<bar>round_nearest x - x\<bar> = \<bar>of_int (round_half_even ?m) - ?m\<bar> * 2 powi ?e"
    by (simp add: abs_mult)
  also have "\<dots> \<le> 1 / 2 * 2 powi ?e"
    by (intro mult_right_mono round_half_even_error) simp
  finally show ?thesis by simp
qed

lemma quantum_size:
  assumes "0 \<le> x"
  shows "2 powi quantum_exponent x \<le> max (2 powi (- 1074)) (x * 2 powi (- 52))"
proof (cases "quantum_exponent x = - 1074")
  case True
  then show ?thesis by simp
next
  case False
  then have "2 powi (quantum_exponent x + 52) \<le> x" by (rule quantum_exponent_lower)
  then have "2 powi (quantum_exponent x + 52) * 2 powi (- 52) \<le> x * 2 powi (- 52)"
    by (intro mult_right_mono) simp_all
  moreover have "(2::real) powi (quantum_exponent x + 52) * 2 powi (- 52) = 2 powi quantum_exponent x"
    using power_int_add [of "2::real" "quantum_exponent x + 52" "- 52"] by simp
  ultimately show ?thesis by simp
qed

lemma round_nearest_subnormal:
  assumes "0 \<le> t" and "t < 2 ^ 53"
  shows "round_nearest (t * 2 powi (- 1074)) = of_int (round_half_even t) * 2 powi (- 1074)"
proof -
  let ?x = "t * 2 powi (- 1074)"
  have x: "0 \<le> ?x" using assms(1) by simp
  have "?x < 2 ^ 53 * 2 powi (- 1074)"
    using assms(2) by (intro mult_strict_right_mono) simp_all
  also have "\<dots> = 2 powi (- 1021)"
    using power_int_add [of "2::real" 53 "- 1074"] by simp
  finally have "?x < 2 powi (- 1074 + 53)" by simp
  then have e: "quantum_exponent ?x = - 1074"
    by (intro quantum_exponent_eqI) simp_all
  have "?x / 2 powi (- 1074) = t" by simp
  then show ?thesis
    by (simp only: round_nearest_nonneg_eq [OF x] e)
qed

lemma double_percentage_bounds:
  assumes "0 < v" and "v \<le> s - 30" and "30 < s" and "s \<le> 2 ^ 53"
  shows "0 \<le> round_nearest (v * 100)"
    and "round_nearest (v * 100) \<le> 100 * s"
    and "0 \<le> round_nearest (round_nearest (v * 100) / s)"
    and "round_nearest (round_nearest (v * 100) / s) \<le> 100"
    and "2 powi (- 1021) \<le> v * 100 \<Longrightarrow> 0 < round_nearest (round_nearest (v * 100) / s)"
proof -
  let ?x = "v * 100"
  let ?r = "round_nearest ?x"
  have x: "0 \<le> ?x" using assms(1) by simp
  show r0: "0 \<le> ?r" using x by (rule round_nearest_nonneg)
  have "?x * 2 powi (- 52) \<le> (2 ^ 53 * 100) * 2 powi (- 52)"
    using assms(2,4) by (intro mult_right_mono) simp_all
  also have "\<dots> = 200" using power_int_add [of "2::real" 53 "- 52"] by simp
  finally have a: "?x * 2 powi (- 52) \<le> 200" .
  have b: "(2::real) powi (- 1074) \<le> 200"
    using power_int_increasing [of "- 1074" 0 "2::real"] by simp
  have "(2::real) powi quantum_exponent ?x \<le> 200"
    using quantum_size [OF x] a b by linarith
  then have "\<bar>?r - ?x\<bar> \<le> 100" using round_nearest_error [OF x] by simp
  then show r1: "?r \<le> 100 * s" using assms(2) by simp
  have s: "0 < s" using assms(3) by simp
  have q0: "0 \<le> ?r / s" using r0 s by simp
  have q1: "?r / s \<le> of_int 100" using r1 s by (simp add: divide_le_eq)
  have q2: "?r / s < 2 ^ 53" using q1 by simp
  show "0 \<le> round_nearest (?r / s)" using q0 by (rule round_nearest_nonneg)
  show "round_nearest (?r / s) \<le> 100"
    using round_nearest_le_int [OF q0 q1 q2] by simp
  show "0 < round_nearest (?r / s)" if "2 powi (- 1021) \<le> ?x"
  proof -
    have "2 powi (- 1021) \<le> ?r"
      using that by (intro round_nearest_ge_pow) simp_all
    moreover have "(2::real) powi (- 1021) = 2 ^ 53 * 2 powi (- 1074)"
      using power_int_add [of "2::real" 53 "- 1074"] by simp
    ultimately have "s * 2 powi (- 1074) \<le> ?r"
      using assms(4) mult_right_mono [of s "2 ^ 53" "2 powi (- 1074)"] by simp
    then have "2 powi (- 1074) \<le> ?r / s" using s by (simp add: le_divide_eq mult.commute)
    then have "2 powi (- 1074) \<le> round_nearest (?r / s)"
      by (intro round_nearest_ge_pow) simp_all
    moreover have "(0::real) < 2 powi (- 1074)" by simp
    ultimately show ?thesis by linarith
  qed
qed

lemma min_value_percentage:
  "round_nearest (2 powi (- 1074) * 100) = 100 * 2 powi (- 1074)"
  "round_nearest (100 * 2 powi (- 1074) / 1366) = 0"
proof -
  show "round_nearest (2 powi (- 1074) * 100) = 100 * 2 powi (- 1074)"
    using round_nearest_subnormal [of 100] round_half_even_of_int [of 100]
    by (simp add: mult.commute del: round_half_even_of_int)
  have "round_half_even (100 / 1366) = 0"
    by (simp add: round_half_even_def)
  then show "round_nearest (100 * 2 powi (- 1074) / 1366) = 0"
    using round_nearest_subnormal [of "100 / 1366"] by simp
qed

section \<open>The size computation\<close>

lemma maxSize_None: "maxSize None m = Finite (m - 30)"
  by (simp add: maxSize_def)

lemma maxSize_Some:
  "maxSize (Some v) m = (if number_less v (Finite (m - 30)) then v else Finite (m - 30))"
  by (simp add: maxSize_def)

lemma maxSize_min: "maxSize (Some (Finite a)) m = Finite (min a (m - 30))"
  by (simp add: maxSize_def min_def)

lemma width_optimizeSize: "width (optimizeSize env w h) = maxSize w (screen_width env)"
  by (simp add: optimizeSize_def Let_def)

lemma height_optimizeSize: "height (optimizeSize env w h) = maxSize h (screen_height env)"
  by (simp add: optimizeSize_def Let_def)

text \<open>
  The percentage of a capped size on a screen of at most \<open>2 ^ 53\<close> pixels: neither the
  product nor the quotient overflows, so both are finite doubles.
\<close>

lemma percentage_capped:
  assumes "0 < v" and "v \<le> s - 30" and "30 < s" and "s \<le> 2 ^ 53"
  shows "percentage (Finite v) s = Finite (round_nearest (round_nearest (v * 100) / s))"
proof -
  note b = double_percentage_bounds [OF assms]
  have big: "(100::real) * 2 ^ 53 < 2 powi 1024" by simp
  have "\<bar>round_nearest (v * 100)\<bar> \<le> 100 * 2 ^ 53"
    using b(1,2) assms(4) by simp
  then have "\<not> 2 powi 1024 \<le> \<bar>round_nearest (v * 100)\<bar>"
    using big by linarith
  then have prod: "round_double (v * 100) = Finite (round_nearest (v * 100))"
    by (simp only: round_double_def if_False)
  have "\<bar>round_nearest (round_nearest (v * 100) / s)\<bar> \<le> 100 * 2 ^ 53"
    using b(3,4) by simp
  then have "\<not> 2 powi 1024 \<le> \<bar>round_nearest (round_nearest (v * 100) / s)\<bar>"
    using big by linarith
  then have quot: "round_double (round_nearest (v * 100) / s) =
      Finite (round_nearest (round_nearest (v * 100) / s))"
    by (simp only: round_double_def if_False)
  have "s \<noteq> 0" using assms(3) by simp
  then show ?thesis
    by (simp only: percentage_def number_times.simps prod number_divide.simps if_False quot)
qed

text \<open>
  Claim C6. The optimized pixel width is the requested width when that is below the
  screen width minus 30, and the screen width minus 30 otherwise; the height obeys
  the same law against the screen height. The law is stated for finite requested
  values with the order of the reals, and for every number (\<^verbatim>\<open>NaN\<close> and the
  infinities included) with the comparison of JavaScript.
\<close>

theorem optimizeSize_caps_to_screen:
  "width (optimizeSize env (Some (Finite rw)) h) =
     Finite (if rw < screen_width env - 30 then rw else screen_width env - 30) \<and>
   height (optimizeSize env w (Some (Finite rh))) =
     Finite (if rh < screen_height env - 30 then rh else screen_height env - 30) \<and>
   width (optimizeSize env (Some v) h) =
     (if number_less v (Finite (screen_width env - 30)) then v
      else Finite (screen_width env - 30)) \<and>
   height (optimizeSize env w (Some v)) =
     (if number_less v (Finite (screen_height env - 30)) then v
      else Finite (screen_height env - 30))"
  by (simp add: width_optimizeSize height_optimizeSize maxSize_Some)

theorem optimizeSize_caps_to_screen_witness:
  "width (optimizeSize laptop (Some (Finite 1024)) (Some (Finite 768))) = Finite 1024 \<and>
   height (optimizeSize laptop (Some (Finite 1024)) (Some (Finite 768))) = Finite 738 \<and>
   width (optimizeSize laptop (Some PosInfinity) (Some (Finite 768))) = Finite 1336 \<and>
   height (optimizeSize laptop (Some (Finite 1024)) (Some NaN)) = Finite 738"
  using optimizeSize_caps_to_screen [of laptop 1024 "Some (Finite 768)" "Some (Finite 1024)" 768 PosInfinity]
    optimizeSize_caps_to_screen [of laptop 1024 "Some (Finite 768)" "Some (Finite 1024)" 768 NaN]
  by (simp add: laptop_def)

text \<open>
  Claim C7, as amended. For a positive finite requested size on a screen whose
  dimensions exceed 30 and are at most \<open>2 ^ 53\<close>, the computed size has its width and
  height capped by \<open>min\<close> at the screen dimension minus 30, hence at most the screen
  dimension. Each percentage is the capped pixel size times 100 divided by the screen
  dimension as double arithmetic computes it: the product rounded to the nearest
  double, then the quotient rounded to the nearest double, and no rounding to a whole
  number. It lies between 0 and 100, both included, and it is greater than 0 whenever
  the capped size times 100 is at least \<open>2 powi (- 1021)\<close>, which every size of a
  pixel or more is.
\<close>

theorem optimizeSize_bounds_and_percentages:
  assumes "0 < rw" and "0 < rh"
    and "30 < screen_width env" and "screen_width env \<le> 2 ^ 53"
    and "30 < screen_height env" and "screen_height env \<le> 2 ^ 53"
  shows "optimizeSize env (Some (Finite rw)) (Some (Finite rh)) =
           \<lparr> width_pct = Finite (round_nearest
               (round_nearest (min rw (screen_width env - 30) * 100) / screen_width env)),
             height_pct = Finite (round_nearest
               (round_nearest (min rh (screen_height env - 30) * 100) / screen_height env)),
             width = Finite (min rw (screen_width env - 30)),
             height = Finite (min rh (screen_height env - 30)) \<rparr> \<and>
         min rw (screen_width env - 30) \<le> screen_width env \<and>
         min rh (screen_height env - 30) \<le> screen_height env \<and>
         0 \<le> round_nearest
               (round_nearest (min rw (screen_width env - 30) * 100) / screen_width env) \<and>
         round_nearest
               (round_nearest (min rw (screen_width env - 30) * 100) / screen_width env)
           \<le> 100 \<and>
         0 \<le> round_nearest
               (round_nearest (min rh (screen_height env - 30) * 100) / screen_height env) \<and>
         round_nearest
               (round_nearest (min rh (screen_height env - 30) * 100) / screen_height env)
           \<le> 100 \<and>
         (2 powi (- 1021) \<le> min rw (screen_width env - 30) * 100 \<longrightarrow>
            0 < round_nearest
               (round_nearest (min rw (screen_width env - 30) * 100) / screen_width env)) \<and>
         (2 powi (- 1021) \<le> min rh (screen_height env - 30) * 100 \<longrightarrow>
            0 < round_nearest
               (round_nearest (min rh (screen_height env - 30) * 100) / screen_height env))"
proof -
  let ?vw = "min rw (screen_width env - 30)"
  let ?vh = "min rh (screen_height env - 30)"
  have vw: "0 < ?vw" "?vw \<le> screen_width env - 30" using assms(1,3) by simp_all
  have vh: "0 < ?vh" "?vh \<le> screen_height env - 30" using assms(2,5) by simp_all
  note bw = double_percentage_bounds [OF vw assms(3,4)]
  note bh = double_percentage_bounds [OF vh assms(5,6)]
  have size: "optimizeSize env (Some (Finite rw)) (Some (Finite rh)) =
           \<lparr> width_pct = Finite (round_nearest
               (round_nearest (?vw * 100) / screen_width env)),
             height_pct = Finite (round_nearest
               (round_nearest (?vh * 100) / screen_height env)),
             width = Finite ?vw, height = Finite ?vh \<rparr>"
    by (simp only: optimizeSize_def Let_def maxSize_min
          percentage_capped [OF vw assms(3,4)] percentage_capped [OF vh assms(5,6)])
  have le: "?vw \<le> screen_width env" "?vh \<le> screen_height env"
    using vw(2) vh(2) by linarith+
  show ?thesis
    using size le bw(3,4,5) bh(3,4,5) by blast
qed

theorem optimizeSize_bounds_and_percentages_witness:
  "optimizeSize laptop (Some (Finite 1024)) (Some (Finite 800)) =
     \<lparr> width_pct = Finite (round_nearest (round_nearest 102400 / 1366)),
       height_pct = Finite (round_nearest (round_nearest 73800 / 768)),
       width = Finite 1024, height = Finite 738 \<rparr> \<and>
   0 < round_nearest (round_nearest 102400 / 1366) \<and>
   round_nearest (round_nearest 102400 / 1366) \<le> 100 \<and>
   0 < round_nearest (round_nearest 73800 / 768) \<and>
   round_nearest (round_nearest 73800 / 768) \<le> 100"
proof -
  have small: "(2::real) powi (- 1021) \<le> 102400" "(2::real) powi (- 1021) \<le> 73800"
    using power_int_increasing [of "- 1021" 0 "2::real"] by simp_all
  show ?thesis
    using optimizeSize_bounds_and_percentages [of 1024 800 laptop] small
    by (simp add: laptop_def)
qed

text \<open>
  Claim C7 as it was stated fails: the smallest positive double, \<open>2 powi (- 1074)\<close>,
  which JavaScript writes \<^verbatim>\<open>5e-324\<close>, is a positive finite requested width; on a
  screen of 1366 by 768 pixels it is below the cap and is kept as the width, its
  product with 100 is exact, and the quotient by 1366 is less than half the smallest
  positive double and rounds to zero. The width percentage is 0, outside the interval
  that excludes 0.
\<close>

theorem percentage_underflows_to_zero:
  "(0::real) < 2 powi (- 1074) \<and>
   width (optimizeSize laptop (Some (Finite (2 powi (- 1074)))) (Some (Finite 400))) =
     Finite (2 powi (- 1074)) \<and>
   width_pct (optimizeSize laptop (Some (Finite (2 powi (- 1074)))) (Some (Finite 400))) =
     Finite 0"
proof -
  have pos: "(0::real) < 2 powi (- 1074)" by simp
  have "(2::real) powi (- 1074) \<le> 2 powi 0"
    by (intro power_int_increasing) simp_all
  then have less: "(2::real) powi (- 1074) < 1366 - 30" by simp
  have w: "maxSize (Some (Finite (2 powi (- 1074)))) 1366 = Finite (2 powi (- 1074))"
    using less by (simp only: maxSize_min min_def) simp
  have p1: "round_double (2 powi (- 1074) * 100) = Finite (100 * 2 powi (- 1074))"
  proof -
    have "\<bar>100 * (2::real) powi (- 1074)\<bar> \<le> 100 * 2 powi 0"
      using power_int_increasing [of "- 1074" 0 "2::real"] by simp
    then have "\<not> 2 powi 1024 \<le> \<bar>100 * (2::real) powi (- 1074)\<bar>" by simp
    then show ?thesis
      by (simp only: round_double_def min_value_percentage(1) if_False)
  qed
  have p2: "round_double (100 * 2 powi (- 1074) / 1366) = Finite 0"
    by (simp only: round_double_def min_value_percentage(2)) simp
  have "percentage (Finite (2 powi (- 1074))) 1366 = Finite 0"
    by (simp only: percentage_def number_times.simps p1 number_divide.simps p2) simp
  then show ?thesis
    using pos w by (simp only: laptop_def optimizeSize_def Let_def) simp
qed



section \<open>Construction\<close>

lemma test_https_iff: "test_https url \<longleftrightarrow> (\<exists>rest. url = ''https'' @ rest)"
proof
  assume "test_https url"
  then have "url = ''https'' @ drop 5 url"
    unfolding test_https_def by (metis append_take_drop_id)
  then show "\<exists>rest. url = ''https'' @ rest" ..
next
  assume "\<exists>rest. url = ''https'' @ rest"
  then show "test_https url" by (auto simp: test_https_def)
qed

lemma constructor_Inr_size:
  assumes "Dialog_constructor env url w h = Inr d"
  shows "this_size d = optimizeSize env w h"
  using assms by (auto simp: Dialog_constructor_def Let_def split: if_splits)

text \<open>
  Claim C9. Inside the add-in host, the constructor fails on a url that does not
  begin with \<^verbatim>\<open>https\<close>, whether the url was given or is the default
  \<^verbatim>\<open>location.origin\<close>; the error is the \<^verbatim>\<open>DialogError\<close> with the message
  \<^verbatim>\<open>URL has to be loaded over HTTPS.\<close>, the only error class of the source, which the
  specification calls a validation error here. With the url
  \<^verbatim>\<open>https://example.com\<close> the constructor returns the object and raises nothing,
  whatever the requested size and the screen.
\<close>

theorem constructor_requires_https:
  assumes "isAddin env"
  shows "((\<forall>rest. url \<noteq> ''https'' @ rest) \<longrightarrow>
            Dialog_constructor env (Some url) w h =
              Inl (DialogError (String ''URL has to be loaded over HTTPS.'') (Value Undefined))) \<and>
         ((\<forall>rest. location_origin env \<noteq> ''https'' @ rest) \<longrightarrow>
            Dialog_constructor env None w h =
              Inl (DialogError (String ''URL has to be loaded over HTTPS.'') (Value Undefined))) \<and>
         Dialog_constructor env (Some ''https://example.com'') w h =
           Inr \<lparr> this_url = ''https://example.com'', this_width = w, this_height = h,
                 this_size = optimizeSize env w h, this_result = None \<rparr>"
proof -
  have "Dialog_constructor env (Some ''https://example.com'') w h =
           Inr \<lparr> this_url = ''https://example.com'', this_width = w, this_height = h,
                 this_size = optimizeSize env w h, this_result = None \<rparr>"
    using assms by (simp add: Dialog_constructor_def test_https_def)
  moreover have "Dialog_constructor env (Some url) w h =
             Inl (DialogError (String ''URL has to be loaded over HTTPS.'') (Value Undefined))"
    if "\<forall>rest. url \<noteq> ''https'' @ rest"
    using assms that by (simp add: Dialog_constructor_def test_https_iff)
  moreover have "Dialog_constructor env None w h =
             Inl (DialogError (String ''URL has to be loaded over HTTPS.'') (Value Undefined))"
    if "\<forall>rest. location_origin env \<noteq> ''https'' @ rest"
    using assms that by (simp add: Dialog_constructor_def test_https_iff)
  ultimately show ?thesis by blast
qed

theorem constructor_requires_https_witness:
  "Dialog_constructor laptop (Some ''http://example.com'') None None =
     Inl (DialogError (String ''URL has to be loaded over HTTPS.'') (Value Undefined)) \<and>
   Dialog_constructor (laptop\<lparr>location_origin := ''file:///C:/addin''\<rparr>) None None None =
     Inl (DialogError (String ''URL has to be loaded over HTTPS.'') (Value Undefined)) \<and>
   Dialog_constructor laptop (Some ''https://example.com'') None None =
     Inr \<lparr> this_url = ''https://example.com'', this_width = None, this_height = None,
           this_size = \<lparr> width_pct = percentage (Finite 1336) 1366,
                         height_pct = percentage (Finite 738) 768,
                         width = Finite 1336, height = Finite 738 \<rparr>,
           this_result = None \<rparr>"
  using constructor_requires_https [of laptop "''http://example.com''" None None]
    constructor_requires_https
      [of "laptop\<lparr>location_origin := ''file:///C:/addin''\<rparr>" "''http://example.com''" None None]
  by (simp add: laptop_def optimizeSize_def Let_def maxSize_def)

lemma constructor_laptop_dialog: "Dialog_constructor laptop None None None = Inr laptop_dialog"
  by (simp add: Dialog_constructor_def laptop_dialog_def Let_def test_https_def)
    (simp add: laptop_def)

text \<open>
  Claim C10. Whenever the constructor succeeds, the size it stores is
  \<^verbatim>\<open>_optimizeSize\<close> of the arguments exactly as given, so \<^verbatim>\<open>_getSize\<close> plays
  no part in it. With the width not given, the comparison of \<^verbatim>\<open>undefined\<close> with the
  screen width minus 30 is false and the stored pixel width is the screen width minus
  30; the same holds for the height against the screen height.
\<close>

theorem constructor_undefined_dimension:
  assumes "Dialog_constructor env url w h = Inr d"
  shows "this_size d = optimizeSize env w h \<and>
     (w = None \<longrightarrow> width (this_size d) = Finite (screen_width env - 30)) \<and>
     (h = None \<longrightarrow> height (this_size d) = Finite (screen_height env - 30)) \<and>
     \<not> number_less NaN (Finite (screen_width env - 30)) \<and>
     \<not> number_less NaN (Finite (screen_height env - 30))"
  using constructor_Inr_size [OF assms]
  by (simp add: width_optimizeSize height_optimizeSize maxSize_None)

theorem constructor_undefined_dimension_witness:
  "Dialog_constructor laptop None None (Some (Finite 400)) =
     Inr \<lparr> this_url = ''https://localhost'', this_width = None,
           this_height = Some (Finite 400),
           this_size = optimizeSize laptop None (Some (Finite 400)),
           this_result = None \<rparr> \<and>
   width (optimizeSize laptop None (Some (Finite 400))) = Finite 1336 \<and>
   height (optimizeSize laptop None (Some (Finite 400))) = Finite 400 \<and>
   height (optimizeSize laptop (Some (Finite 400)) None) = Finite 738"
proof -
  have a: "Dialog_constructor laptop None None (Some (Finite 400)) =
     Inr \<lparr> this_url = ''https://localhost'', this_width = None,
           this_height = Some (Finite 400),
           this_size = optimizeSize laptop None (Some (Finite 400)),
           this_result = None \<rparr>"
    by (simp add: Dialog_constructor_def laptop_def test_https_def Let_def)
  have b: "Dialog_constructor laptop None (Some (Finite 400)) None =
     Inr \<lparr> this_url = ''https://localhost'', this_width = Some (Finite 400),
           this_height = None,
           this_size = optimizeSize laptop (Some (Finite 400)) None,
           this_result = None \<rparr>"
    by (simp add: Dialog_constructor_def laptop_def test_https_def Let_def)
  have "height (optimizeSize laptop None (Some (Finite 400))) = Finite 400"
    by (simp add: height_optimizeSize maxSize_Some laptop_def)
  then show ?thesis
    using a constructor_undefined_dimension [OF a] constructor_undefined_dimension [OF b]
    by (simp add: laptop_def)
qed

text \<open>
  Claim C1, as amended. A \<^verbatim>\<open>Dialog\<close> constructed with neither width nor height
  stores the size that \<^verbatim>\<open>_optimizeSize\<close> computes from the two \<^verbatim>\<open>undefined\<close>
  values: the screen width minus 30 by the screen height minus 30, with the
  percentages of these two. The breakpoint defaults of \<^verbatim>\<open>_getSize\<close> are not used.
\<close>

theorem constructor_size_without_hints:
  assumes "Dialog_constructor env url None None = Inr d"
  shows "this_size d = optimizeSize env None None \<and>
         this_size d =
           \<lparr> width_pct = percentage (Finite (screen_width env - 30)) (screen_width env),
             height_pct = percentage (Finite (screen_height env - 30)) (screen_height env),
             width = Finite (screen_width env - 30),
             height = Finite (screen_height env - 30) \<rparr>"
  using constructor_Inr_size [OF assms]
  by (simp add: optimizeSize_def Let_def maxSize_None)

theorem constructor_size_without_hints_witness:
  "Dialog_constructor (laptop\<lparr>screen_width := 2560, screen_height := 1440\<rparr>)
     (Some ''https://example.com/dialog.html'') None None =
     Inr \<lparr> this_url = ''https://example.com/dialog.html'', this_width = None,
           this_height = None,
           this_size = \<lparr> width_pct = percentage (Finite 2530) 2560,
                         height_pct = percentage (Finite 1410) 1440,
                         width = Finite 2530, height = Finite 1410 \<rparr>,
           this_result = None \<rparr>"
proof -
  have d: "Dialog_constructor (laptop\<lparr>screen_width := 2560, screen_height := 1440\<rparr>)
     (Some ''https://example.com/dialog.html'') None None =
     Inr \<lparr> this_url = ''https://example.com/dialog.html'', this_width = None,
           this_height = None,
           this_size = optimizeSize (laptop\<lparr>screen_width := 2560, screen_height := 1440\<rparr>)
                         None None,
           this_result = None \<rparr>"
    by (simp add: Dialog_constructor_def laptop_def test_https_def Let_def)
  from constructor_size_without_hints [OF d]
  have "optimizeSize (laptop\<lparr>screen_width := 2560, screen_height := 1440\<rparr>) None None =
          \<lparr> width_pct = percentage (Finite 2530) 2560,
            height_pct = percentage (Finite 1410) 1440,
            width = Finite 2530, height = Finite 1410 \<rparr>"
    by (simp add: laptop_def)
  with d show ?thesis by simp
qed

text \<open>
  Claim C1 as it was stated fails: on a screen of 1366 by 768 pixels the constructor
  called without a size stores a width of 1336 pixels, while the optimizer applied to
  the breakpoint default 1024 by 768, which is also what \<^verbatim>\<open>_getSize\<close> returns
  there, gives a width of 1024 pixels.
\<close>

theorem constructor_ignores_breakpoint_defaults:
  "Dialog_constructor laptop None None None =
     Inr \<lparr> this_url = ''https://localhost'', this_width = None, this_height = None,
           this_size = \<lparr> width_pct = percentage (Finite 1336) 1366,
                         height_pct = percentage (Finite 738) 768,
                         width = Finite 1336, height = Finite 738 \<rparr>,
           this_result = None \<rparr> \<and>
   optimizeSize laptop (Some (Finite 1024)) (Some (Finite 768)) =
     \<lparr> width_pct = percentage (Finite 1024) 1366,
       height_pct = percentage (Finite 738) 768,
       width = Finite 1024, height = Finite 738 \<rparr> \<and>
   getSize laptop None None =
     Some \<lparr> width_pct = percentage (Finite 1024) 1366,
            height_pct = percentage (Finite 738) 768,
            width = Finite 1024, height = Finite 738 \<rparr> \<and>
   Finite 1336 \<noteq> Finite 1024"
  by (simp add: Dialog_constructor_def laptop_def test_https_def getSize_def optimizeSize_def
        Let_def maxSize_def)

section \<open>The static \<^verbatim>\<open>close\<close>\<close>

lemma payload_hello:
  \<open>JSON_stringify (Object [(''type'', String ''string''), (''value'', String ''hello'')]) =
     String ''{"type":"string","value":"hello"}''\<close>
  by (simp add: JSON_stringify_def quote_def quote_char_def)

lemma payload_object:
  \<open>JSON_stringify
      (Object [(''type'', String ''object''), (''value'', Object [(''a'', Number 1)])]) =
     String ''{"type":"object","value":{"a":1}}''\<close>
  by (simp add: JSON_stringify_def quote_def quote_char_def number_to_string_def)

lemma payload_undefined:
  \<open>JSON_stringify (Object [(''type'', Null), (''value'', Undefined)]) =
     String ''{"type":null}''\<close>
  by (simp add: JSON_stringify_def quote_def quote_char_def)

lemma payload_null:
  \<open>JSON_stringify (Object [(''type'', Null), (''value'', Null)]) =
     String ''{"type":null,"value":null}''\<close>
  by (simp add: JSON_stringify_def quote_def quote_char_def)

text \<open>
  Inside the add-in, every message but a function reaches the host: the payload is the
  serialization of the message with its type, and the outcome is the error of the
  host, wrapped, if the host throws.
\<close>

lemma Dialog_close_sends:
  assumes "isAddin env" and "message \<noteq> Function"
  shows "Dialog_close env mp message sent =
     (let payload = JSON_stringify (Object [(''type'',
              if message = Undefined \<or> message = Null then Null
              else if typeof message = ''string'' then String ''string''
              else String ''object''), (''value'', message)])
      in (map_option (DialogError (String ''Canno't close dialog'')) (mp payload),
          sent @ [payload]))"
proof -
  have "typeof message \<noteq> ''function''" using assms(2) by (cases message) simp_all
  then show ?thesis using assms(1)
    by (simp add: Dialog_close_def Let_def split: option.splits)
qed

text \<open>
  Claim C2, as amended. Inside the add-in, \<^verbatim>\<open>Dialog.close\<close> classifies its message
  and hands the host the serialization of type and value: for the message
  \<^verbatim>\<open>"hello"\<close> exactly \<^verbatim>\<open>{"type":"string","value":"hello"}\<close>, for \<^verbatim>\<open>{a:1}\<close>
  exactly \<^verbatim>\<open>{"type":"object","value":{"a":1}}\<close>, for no argument exactly
  \<^verbatim>\<open>{"type":null}\<close> (the serializer leaves out a property whose value is
  \<^verbatim>\<open>undefined\<close>), for \<^verbatim>\<open>null\<close> exactly \<^verbatim>\<open>{"type":null,"value":null}\<close>.
  In each of these cases the host is called once, and the call fails only with the
  wrapped error of the host. For a function the call fails with the
  \<^verbatim>\<open>DialogError\<close> for an invalid message and the host is not called.
\<close>

theorem close_serializes_message:
  assumes "isAddin env"
  shows \<open>Dialog_close env mp (String ''hello'') sent =
           (map_option (DialogError (String ''Canno't close dialog''))
              (mp (String ''{"type":"string","value":"hello"}'')),
            sent @ [String ''{"type":"string","value":"hello"}'']) \<and>
         Dialog_close env mp (Object [(''a'', Number 1)]) sent =
           (map_option (DialogError (String ''Canno't close dialog''))
              (mp (String ''{"type":"object","value":{"a":1}}'')),
            sent @ [String ''{"type":"object","value":{"a":1}}'']) \<and>
         Dialog_close env mp Undefined sent =
           (map_option (DialogError (String ''Canno't close dialog''))
              (mp (String ''{"type":null}'')),
            sent @ [String ''{"type":null}'']) \<and>
         Dialog_close env mp Null sent =
           (map_option (DialogError (String ''Canno't close dialog''))
              (mp (String ''{"type":null,"value":null}'')),
            sent @ [String ''{"type":null,"value":null}'']) \<and>
         Dialog_close env mp Function sent =
           (Some (DialogError
                    (String ''Invalid message. Canno't pass functions as arguments'')
                    (Value Undefined)), sent)\<close>
proof -
  have "Dialog_close env mp Function sent =
           (Some (DialogError
                    (String ''Invalid message. Canno't pass functions as arguments'')
                    (Value Undefined)), sent)"
    using assms by (simp add: Dialog_close_def)
  moreover note Dialog_close_sends [OF assms, of "String ''hello''" mp sent]
    Dialog_close_sends [OF assms, of "Object [(''a'', Number 1)]" mp sent]
    Dialog_close_sends [OF assms, of Undefined mp sent]
    Dialog_close_sends [OF assms, of Null mp sent]
  ultimately show ?thesis
    by (simp only: payload_hello payload_object payload_undefined payload_null Let_def
          js_value.simps typeof.simps simp_thms if_True if_False
          list.inject char.inject)
qed

theorem close_serializes_message_witness:
  \<open>Dialog_close laptop never_throws (String ''hello'') [] =
     (None, [String ''{"type":"string","value":"hello"}'']) \<and>
   Dialog_close laptop never_throws (Object [(''a'', Number 1)]) [] =
     (None, [String ''{"type":"object","value":{"a":1}}'']) \<and>
   Dialog_close laptop never_throws Null [] =
     (None, [String ''{"type":null,"value":null}'']) \<and>
   Dialog_close laptop never_throws Function [] =
     (Some (DialogError (String ''Invalid message. Canno't pass functions as arguments'')
              (Value Undefined)), [])\<close>
  using close_serializes_message [of laptop never_throws "[]"]
  by (simp add: laptop_def never_throws_def)

text \<open>
  Claim C2 as it was stated fails for the call without an argument: the host receives
  \<^verbatim>\<open>{"type":null}\<close>, which is not \<^verbatim>\<open>{"type":null,"value":null}\<close>.
\<close>

theorem close_without_argument_omits_value:
  \<open>Dialog_close laptop never_throws Undefined [] = (None, [String ''{"type":null}'']) \<and>
   String ''{"type":null}'' \<noteq> String ''{"type":null,"value":null}''\<close>
  by (simp add: Dialog_close_def laptop_def never_throws_def payload_undefined)

section \<open>The session\<close>

subsection \<open>What each operation leaves unchanged\<close>

lemma resolve_frame:
  "length (promises (resolve p v w)) = length (promises w)"
  "display_requests (resolve p v w) = display_requests w"
  "handlers (resolve p v w) = handlers w"
  "close_calls (resolve p v w) = close_calls w"
  by (simp_all add: resolve_def)

lemma reject_frame:
  "length (promises (reject p e w)) = length (promises w)"
  "display_requests (reject p e w) = display_requests w"
  "handlers (reject p e w) = handlers w"
  "close_calls (reject p e w) = close_calls w"
  by (simp_all add: reject_def)

lemma close_dialog_frame:
  "promises (close_dialog dlg w) = promises w"
  "display_requests (close_dialog dlg w) = display_requests w"
  "handlers (close_dialog dlg w) = handlers w"
  "close_calls (close_dialog dlg w) = close_calls w @ [dlg]"
  by (simp_all add: close_dialog_def)

lemma message_handler_frame:
  "length (promises (message_handler p dlg args w)) = length (promises w)"
  "display_requests (message_handler p dlg args w) = display_requests w"
  "handlers (message_handler p dlg args w) = handlers w"
  "close_calls (message_handler p dlg args w) = close_calls w @ [dlg]"
  by (simp_all add: message_handler_def close_dialog_frame resolve_frame reject_frame
        split: sum.splits)

lemma event_handler_frame:
  "length (promises (event_handler p dlg args w)) = length (promises w)"
  "display_requests (event_handler p dlg args w) = display_requests w"
  "handlers (event_handler p dlg args w) = handlers w"
  "close_calls (event_handler p dlg args w) = close_calls w @ [dlg]"
  by (simp_all add: event_handler_def close_dialog_frame resolve_frame reject_frame
        split: sum.splits)

lemma run_handler_frame:
  "length (promises (run_handler h args w)) = length (promises w)"
  "display_requests (run_handler h args w) = display_requests w"
  "handlers (run_handler h args w) = handlers w"
  by (cases h; simp add: message_handler_frame event_handler_frame)+

lemma fold_run_handler_frame:
  "length (promises (fold (\<lambda>h. run_handler h args) hs w)) = length (promises w) \<and>
   display_requests (fold (\<lambda>h. run_handler h args) hs w) = display_requests w"
  by (induction hs arbitrary: w) (simp_all add: run_handler_frame)

lemma deliver_frame:
  "length (promises (deliver dlg ty args w)) = length (promises w)"
  "display_requests (deliver dlg ty args w) = display_requests w"
  by (simp_all add: deliver_def fold_run_handler_frame)

lemma callback_frame:
  "length (promises (snd (displayDialogAsync_callback p r w))) = length (promises w)"
  "display_requests (snd (displayDialogAsync_callback p r w)) = display_requests w"
  by (simp_all add: displayDialogAsync_callback_def split: async_result.splits)

lemma step_other_frame:
  assumes "a \<noteq> ReadResult"
  shows "dialog (step a s) = dialog s"
    and "reads (step a s) = reads s"
    and "length (promises (world_of (step a s))) = length (promises (world_of s))"
    and "display_requests (world_of (step a s)) = display_requests (world_of s)"
  using assms callback_frame
  by (cases a; simp add: deliver_frame split_beta Let_def)+

subsection \<open>Reading the result\<close>

lemma step_read_opened:
  assumes "this_result (dialog s) = Some p"
  shows "step ReadResult s = s\<lparr>reads := reads s @ [p]\<rparr>"
  using assms by (simp add: Dialog_result_def)

lemma step_read_fresh:
  assumes "this_result (dialog s) = None"
  shows "this_result (dialog (step ReadResult s)) = Some (length (promises (world_of s)))"
    and "reads (step ReadResult s) = reads s @ [length (promises (world_of s))]"
    and "display_requests (world_of (step ReadResult s)) =
           display_requests (world_of s) @
             [\<lparr> startAddress = this_url (dialog s),
                options_width = width_pct (this_size (dialog s)),
                options_height = height_pct (this_size (dialog s)),
                callback = length (promises (world_of s)) \<rparr>]"
  using assms by (simp_all add: Dialog_result_def Dialog_open_def Let_def)

text \<open>Once the promise is stored, every read returns it and the host is not called.\<close>

lemma run_opened:
  assumes "this_result (dialog s) = Some p"
  shows "reads (run as s) = reads s @ replicate (count_list as ReadResult) p \<and>
         display_requests (world_of (run as s)) = display_requests (world_of s)"
  using assms
proof (induction as arbitrary: s)
  case Nil
  then show ?case by simp
next
  case (Cons a as)
  show ?case
  proof (cases "a = ReadResult")
    case True
    have "step a s = s\<lparr>reads := reads s @ [p]\<rparr>"
      using True Cons.prems step_read_opened by simp
    moreover have "this_result (dialog (s\<lparr>reads := reads s @ [p]\<rparr>)) = Some p"
      using Cons.prems by simp
    ultimately show ?thesis
      using Cons.IH [of "s\<lparr>reads := reads s @ [p]\<rparr>"] True
      by (simp add: replicate_append_same)
  next
    case False
    then have "this_result (dialog (step a s)) = Some p"
      using Cons.prems by (simp add: step_other_frame)
    then show ?thesis
      using Cons.IH [of "step a s"] False by (simp add: step_other_frame)
  qed
qed

text \<open>Before the first read, nothing that happens stores a promise or calls the host.\<close>

lemma run_fresh:
  assumes "this_result (dialog s) = None"
  shows "reads (run as s) =
           reads s @ replicate (count_list as ReadResult) (length (promises (world_of s))) \<and>
         display_requests (world_of (run as s)) =
           display_requests (world_of s) @
             (if ReadResult \<in> set as then
                [\<lparr> startAddress = this_url (dialog s),
                   options_width = width_pct (this_size (dialog s)),
                   options_height = height_pct (this_size (dialog s)),
                   callback = length (promises (world_of s)) \<rparr>]
              else [])"
  using assms
proof (induction as arbitrary: s)
  case Nil
  then show ?case by simp
next
  case (Cons a as)
  show ?case
  proof (cases "a = ReadResult")
    case True
    show ?thesis
      using run_opened [OF step_read_fresh(1) [OF Cons.prems], of as] True
        step_read_fresh(2,3) [OF Cons.prems]
      by (simp add: replicate_append_same)
  next
    case False
    then have "this_result (dialog (step a s)) = None"
      using Cons.prems by (simp add: step_other_frame)
    then show ?thesis
      using Cons.IH [of "step a s"] False by (simp add: step_other_frame)
  qed
qed

text \<open>
  Claim C3. Take a \<^verbatim>\<open>Dialog\<close> object as the constructor leaves it and let anything
  happen to it, in any order and number: reads of \<^verbatim>\<open>result\<close>, completions of display
  requests, events on dialog handles. Then every read returns one and the same promise,
  the one allocated at the first read, and the host has received exactly one call of
  \<^verbatim>\<open>displayDialogAsync\<close> for the session if \<^verbatim>\<open>result\<close> was read at all, however
  often, and none otherwise.
\<close>

theorem result_memoized:
  assumes "this_result d = None"
  shows "reads (run as \<lparr> dialog = d, world_of = w, reads = [], thrown = [] \<rparr>) =
           replicate (count_list as ReadResult) (length (promises w)) \<and>
         display_requests
             (world_of (run as \<lparr> dialog = d, world_of = w, reads = [], thrown = [] \<rparr>)) =
           display_requests w @
             (if ReadResult \<in> set as then
                [\<lparr> startAddress = this_url d,
                   options_width = width_pct (this_size d),
                   options_height = height_pct (this_size d),
                   callback = length (promises w) \<rparr>]
              else [])"
  using run_fresh [of "\<lparr> dialog = d, world_of = w, reads = [], thrown = [] \<rparr>" as] assms
  by simp

theorem result_memoized_witness:
  "reads (run [ReadResult, Complete 0 (Succeeded 7), ReadResult,
               Deliver 7 DialogMessageReceived (Object [(''message'', String ''done'')]),
               ReadResult]
            \<lparr> dialog = laptop_dialog, world_of = fresh_world, reads = [], thrown = [] \<rparr>) =
     [0, 0, 0] \<and>
   display_requests
     (world_of (run [ReadResult, Complete 0 (Succeeded 7), ReadResult,
                     Deliver 7 DialogMessageReceived (Object [(''message'', String ''done'')]),
                     ReadResult]
            \<lparr> dialog = laptop_dialog, world_of = fresh_world, reads = [], thrown = [] \<rparr>)) =
     [\<lparr> startAddress = ''https://localhost'',
        options_width = width_pct (optimizeSize laptop None None),
        options_height = height_pct (optimizeSize laptop None None),
        callback = 0 \<rparr>]"
proof -
  have fresh: "this_result laptop_dialog = None"
    by (simp add: laptop_dialog_def)
  have n: "count_list [ReadResult, Complete 0 (Succeeded 7), ReadResult,
               Deliver 7 DialogMessageReceived (Object [(''message'', String ''done'')]),
               ReadResult] ReadResult = 3"
    by simp
  show ?thesis
    using result_memoized [OF fresh, of
        "[ReadResult, Complete 0 (Succeeded 7), ReadResult,
          Deliver 7 DialogMessageReceived (Object [(''message'', String ''done'')]),
          ReadResult]" fresh_world]
    unfolding n
    by (simp add: fresh_world_def laptop_dialog_def numeral_3_eq_3)
qed

subsection \<open>The message of the dialog\<close>

lemma deliver_single:
  assumes "registered dlg ty w = [h]"
  shows "deliver dlg ty args w = run_handler h args w"
  using assms by (simp add: deliver_def)

lemma message_handler_promises:
  assumes "p < length (promises w)" and "promises w ! p = Pending"
  shows "promises (message_handler p dlg args w) =
     (promises w)[p := (case get_property args ''message'' of
                          Inr m \<Rightarrow> if thenable m then Following m else Fulfilled m
                        | Inl e \<Rightarrow> Rejected (DialogError
                             (String ''An unexpected error in the dialog has occured.'') e))]"
  using assms
  by (simp add: message_handler_def close_dialog_frame resolve_def reject_def split: sum.splits)

text \<open>
  Claim C4. A session is open when its promise \<open>p\<close> is pending and the message handler
  of \<open>p\<close> is the one handler registered for messages on the dialog handle. When the host
  then delivers a message event, \<^verbatim>\<open>close\<close> is called on the handle exactly once,
  whatever the arguments of the event. If the arguments carry the payload \<open>m\<close>, the promise
  is resolved with \<open>m\<close>: fulfilled with it, or locked to it when \<open>m\<close> is a thenable; a
  string payload always fulfils it. The promise is rejected exactly when reading the
  payload throws, and then with the \<^verbatim>\<open>DialogError\<close> that wraps the exception.
\<close>

theorem message_received_settles_and_closes_once:
  assumes "p < length (promises w)" and "promises w ! p = Pending"
    and "registered dlg DialogMessageReceived w = [MessageHandler p dlg]"
  shows "close_calls (deliver dlg DialogMessageReceived args w) = close_calls w @ [dlg] \<and>
     (\<forall>m. get_property args ''message'' = Inr m \<longrightarrow>
        promises (deliver dlg DialogMessageReceived args w) =
          (promises w)[p := (if thenable m then Following m else Fulfilled m)]) \<and>
     (\<forall>e. get_property args ''message'' = Inl e \<longrightarrow>
        promises (deliver dlg DialogMessageReceived args w) =
          (promises w)[p := Rejected (DialogError
             (String ''An unexpected error in the dialog has occured.'') e)]) \<and>
     ((\<exists>e. promises (deliver dlg DialogMessageReceived args w) ! p = Rejected e) \<longleftrightarrow>
        (\<exists>x. get_property args ''message'' = Inl x)) \<and>
     promises (deliver dlg DialogMessageReceived (Object [(''message'', String s)]) w) =
       (promises w)[p := Fulfilled (String s)]"
proof -
  have d: "deliver dlg DialogMessageReceived a w = message_handler p dlg a w" for a
    using deliver_single [OF assms(3)] by simp
  have pr: "promises (message_handler p dlg a w) =
     (promises w)[p := (case get_property a ''message'' of
                          Inr m \<Rightarrow> if thenable m then Following m else Fulfilled m
                        | Inl e \<Rightarrow> Rejected (DialogError
                             (String ''An unexpected error in the dialog has occured.'') e))]"
    for a
    using message_handler_promises [OF assms(1,2)] by simp
  have "close_calls (deliver dlg DialogMessageReceived args w) = close_calls w @ [dlg]"
    by (simp add: d message_handler_frame)
  moreover have "\<forall>m. get_property args ''message'' = Inr m \<longrightarrow>
        promises (deliver dlg DialogMessageReceived args w) =
          (promises w)[p := (if thenable m then Following m else Fulfilled m)]"
    by (simp add: d pr)
  moreover have "\<forall>e. get_property args ''message'' = Inl e \<longrightarrow>
        promises (deliver dlg DialogMessageReceived args w) =
          (promises w)[p := Rejected (DialogError
             (String ''An unexpected error in the dialog has occured.'') e)]"
    by (simp add: d pr)
  moreover have
    "(\<exists>e. promises (deliver dlg DialogMessageReceived args w) ! p = Rejected e) \<longleftrightarrow>
        (\<exists>x. get_property args ''message'' = Inl x)"
    using assms(1) by (cases "get_property args ''message''") (simp_all add: d pr)
  moreover have
    "promises (deliver dlg DialogMessageReceived (Object [(''message'', String s)]) w) =
       (promises w)[p := Fulfilled (String s)]"
    by (simp add: d pr thenable_def)
  ultimately show ?thesis by blast
qed

text \<open>
  The session of \<open>laptop_dialog\<close> after the first read of \<^verbatim>\<open>result\<close> and the
  successful completion of its display request with the dialog handle 7.
\<close>

lemma laptop_session_open:
  "world_of (run [ReadResult, Complete 0 (Succeeded 7)]
      \<lparr> dialog = laptop_dialog, world_of = fresh_world, reads = [], thrown = [] \<rparr>) =
   \<lparr> promises = [Pending],
     display_requests =
       [\<lparr> startAddress = ''https://localhost'',
          options_width = width_pct (optimizeSize laptop None None),
          options_height = height_pct (optimizeSize laptop None None),
          callback = 0 \<rparr>],
     handlers = [(7, DialogMessageReceived, MessageHandler 0 7),
                 (7, DialogEventReceived, EventHandler 0 7)],
     close_calls = [] \<rparr>"
  by (simp add: Dialog_result_def Dialog_open_def Let_def displayDialogAsync_callback_def
        fresh_world_def laptop_dialog_def)

theorem message_received_settles_and_closes_once_witness:
  "promises (world_of (run [ReadResult, Complete 0 (Succeeded 7),
                Deliver 7 DialogMessageReceived (Object [(''message'', String ''done'')])]
      \<lparr> dialog = laptop_dialog, world_of = fresh_world, reads = [], thrown = [] \<rparr>)) =
     [Fulfilled (String ''done'')] \<and>
   close_calls (world_of (run [ReadResult, Complete 0 (Succeeded 7),
                Deliver 7 DialogMessageReceived (Object [(''message'', String ''done'')])]
      \<lparr> dialog = laptop_dialog, world_of = fresh_world, reads = [], thrown = [] \<rparr>)) = [7] \<and>
   promises (world_of (run [ReadResult, Complete 0 (Succeeded 7),
                Deliver 7 DialogMessageReceived Undefined]
      \<lparr> dialog = laptop_dialog, world_of = fresh_world, reads = [], thrown = [] \<rparr>)) =
     [Rejected (DialogError (String ''An unexpected error in the dialog has occured.'')
        TypeError)] \<and>
   close_calls (world_of (run [ReadResult, Complete 0 (Succeeded 7),
                Deliver 7 DialogMessageReceived Undefined]
      \<lparr> dialog = laptop_dialog, world_of = fresh_world, reads = [], thrown = [] \<rparr>)) = [7]"
proof -
  let ?w = "world_of (run [ReadResult, Complete 0 (Succeeded 7)]
      \<lparr> dialog = laptop_dialog, world_of = fresh_world, reads = [], thrown = [] \<rparr>)"
  have split: "world_of (run [ReadResult, Complete 0 (Succeeded 7),
                  Deliver 7 DialogMessageReceived args]
      \<lparr> dialog = laptop_dialog, world_of = fresh_world, reads = [], thrown = [] \<rparr>) =
    deliver 7 DialogMessageReceived args ?w" for args
    by (simp add: split_beta Let_def)
  have h1: "0 < length (promises ?w)" and h2: "promises ?w ! 0 = Pending"
    and h3: "registered 7 DialogMessageReceived ?w = [MessageHandler 0 7]"
    unfolding laptop_session_open by (simp_all add: registered_def)
  have c: "close_calls ?w = []" and p: "promises ?w = [Pending]"
    unfolding laptop_session_open by simp_all
  show ?thesis
    using message_received_settles_and_closes_once
        [OF h1 h2 h3, of "Object [(''message'', String ''done'')]" "''done''"]
      message_received_settles_and_closes_once [OF h1 h2 h3, of Undefined "''done''"]
    unfolding split c p
    by simp
qed

subsection \<open>A display request that fails\<close>

text \<open>
  Claim C5. When the host completes a display request with a failure, the callback
  throws the \<^verbatim>\<open>DialogError\<close> with the message of the failure and changes nothing
  else. In the session of a freshly constructed object that has read \<^verbatim>\<open>result\<close>
  once, the error is therefore raised inside the callback, and the promise the read
  returned is still pending afterwards: it is neither rejected nor resolved.
\<close>

theorem display_failure_raises_in_callback:
  assumes "this_result d = None"
  shows "displayDialogAsync_callback p (Failed message) w =
           (Some (DialogError (String message) (Value Undefined)), w) \<and>
         thrown (run [ReadResult, Complete (length (display_requests w)) (Failed message)]
                   \<lparr> dialog = d, world_of = w, reads = [], thrown = [] \<rparr>) =
           [DialogError (String message) (Value Undefined)] \<and>
         promises
           (world_of (run [ReadResult, Complete (length (display_requests w)) (Failed message)]
                   \<lparr> dialog = d, world_of = w, reads = [], thrown = [] \<rparr>)) =
           promises w @ [Pending] \<and>
         reads (run [ReadResult, Complete (length (display_requests w)) (Failed message)]
                   \<lparr> dialog = d, world_of = w, reads = [], thrown = [] \<rparr>) =
           [length (promises w)]"
  using assms
  by (simp add: displayDialogAsync_callback_def Dialog_result_def Dialog_open_def Let_def
        nth_append)

theorem display_failure_raises_in_callback_witness:
  "thrown (run [ReadResult, Complete 0 (Failed ''The dialog was blocked.'')]
             \<lparr> dialog = laptop_dialog, world_of = fresh_world, reads = [], thrown = [] \<rparr>) =
     [DialogError (String ''The dialog was blocked.'') (Value Undefined)] \<and>
   promises (world_of (run [ReadResult, Complete 0 (Failed ''The dialog was blocked.'')]
             \<lparr> dialog = laptop_dialog, world_of = fresh_world, reads = [], thrown = [] \<rparr>)) =
     [Pending] \<and>
   reads (run [ReadResult, Complete 0 (Failed ''The dialog was blocked.'')]
             \<lparr> dialog = laptop_dialog, world_of = fresh_world, reads = [], thrown = [] \<rparr>) =
     [0]"
proof -
  have fresh: "this_result laptop_dialog = None"
    by (simp add: laptop_dialog_def)
  have w: "length (display_requests fresh_world) = 0" "promises fresh_world = []"
    by (simp_all add: fresh_world_def)
  show ?thesis
    using display_failure_raises_in_callback
        [OF fresh, of 0 "''The dialog was blocked.''" fresh_world]
    unfolding w by simp
qed

end
